theory Spec2Isabelle
  imports Complex_Main "HOL-Library.Word"
begin

section \<open>Failures\<close>

text \<open>
  Every way a modelled method can leave without returning.  \<open>ASSERT(c)\<close> throws
  eckit's AssertionFailed; the model keeps the text of the asserted condition so that two
  failed assertions of one method can be told apart.  \<open>NOTIMP\<close> throws
  NotImplemented.  \<open>NullPointer\<close> stands for \<open>p->m()\<close> on an empty shared pointer
  (boost's \<open>operator->\<close> asserts the pointer is set).  \<open>BadTag\<close> is the Stream
  finding something else than what is being read, \<open>BadArrayNewLength\<close> is
  \<open>new S[n]\<close> with a byte count that does not fit \<open>size_t\<close>, \<open>LengthError\<close> is
  \<open>std::length_error\<close>, thrown by \<open>std::vector::resize\<close> beyond \<open>max_size()\<close>, and
  \<open>OutOfBounds\<close> is a copy past the end of a buffer (undefined in the code; the model
  stops there).
\<close>

datatype error =
    AssertionFailed string
  | NotImplemented
  | NullPointer
  | BadTag
  | BadArrayNewLength
  | LengthError
  | OutOfBounds

section \<open>Expressions (eckit/maths/Exp.cc, eckit/maths/Count.cc)\<close>

subsection \<open>Nodes\<close>

text \<open>
  Class \<open>Expr\<close> holds \<open>args_\<close>, a vector of \<open>ExpPtr\<close> (shared pointers, which may
  be empty: the methods below assert on it).  The concrete classes differ in their virtual
  methods only, so a node is its class tag together with \<open>args_\<close>.  Of the classes
  the sources name, \<open>Undef\<close> (Exp.cc) and \<open>Count\<close> (Count.cc) are in the tree;
  \<open>Scalar\<close> is what \<open>Count::evaluate\<close> builds, with its number as payload (a
  \<open>double\<close> in the code, a real here; a count below \<open>2^53\<close> converts exactly);
  \<open>List\<close> is the list value of the specification, its elements kept in \<open>args_\<close>.
  Sharing of subtrees is invisible to evaluation, which never writes to a node; the
  in-place replacement of an argument is modelled on a store further down.
\<close>

datatype kind = Undef | Scalar real | List | Count

datatype expr = Expr (kind: kind) (args: "expr option list")

type_synonym ExpPtr = "expr option"

text \<open>\<open>context_t\<close> (called \<open>Scope\<close> in Count.cc): a deque of \<open>ExpPtr\<close>, front first.\<close>

type_synonym context_t = "ExpPtr list"

text \<open>
  Modelled from the spec: \<open>Undef::is\<close> is declared in Exp.h, which is not among the
  sources.  The specification calls the test "that argument is statically an Undef
  placeholder": the pointed-to node is of class \<open>Undef\<close>.
\<close>

definition Undef_is :: "expr \<Rightarrow> bool" where
  "Undef_is e = (case kind e of Undef \<Rightarrow> True | _ \<Rightarrow> False)"

text \<open>The number of \<open>Undef\<close> nodes of a tree.\<close>

fun undefs :: "expr \<Rightarrow> nat" where
  "undefs (Expr k as) =
     (case k of Undef \<Rightarrow> 1 | _ \<Rightarrow> 0) +
     sum_list (map (\<lambda>p. case p of None \<Rightarrow> 0 | Some a \<Rightarrow> undefs a) as)"

subsection \<open>\<open>Expr::param\<close>, reading\<close>

text \<open>
  \<^verbatim>\<open>
  ExpPtr Expr::param( const size_t& i, context_t* ctx ) const
  {
      ASSERT( i < args_.size() );
      ASSERT( args_[i] );
      if( ctx && Undef::is(args_[i]) )
      {
          ASSERT( !ctx->empty() );
          ExpPtr e = ctx->front();
          ctx->pop_front();
          return e;
      }
      return args_[i];
  }
  \<close>
  The scope is passed by pointer: \<open>None\<close> is the null pointer, and the scope the
  pointer leads to is returned as the method leaves it, also when the method throws.
\<close>

definition param :: "expr \<Rightarrow> nat \<Rightarrow> context_t option \<Rightarrow> (error + ExpPtr) \<times> context_t option" where
  "param e i ctx =
     (if \<not> i < length (args e) then (Inl (AssertionFailed ''i < args_.size()''), ctx)
      else case args e ! i of
        None \<Rightarrow> (Inl (AssertionFailed ''args_[i]''), ctx)
      | Some a \<Rightarrow>
          (case ctx of
             Some c \<Rightarrow>
               if Undef_is a then
                 (case c of
                    [] \<Rightarrow> (Inl (AssertionFailed ''!ctx->empty()''), ctx)
                  | x # c' \<Rightarrow> (Inr x, Some c'))
               else (Inr (Some a), ctx)
           | None \<Rightarrow> (Inr (Some a), ctx)))"

subsection \<open>\<open>evaluate\<close>\<close>

text \<open>
  Modelled from the spec: \<open>Expr::arity\<close> is declared in Exp.h, which is not among the
  sources.  The glossary gives it as the "declared number of arguments a function-variant
  requires, or the element count of a list-like value"; with a list's elements in
  \<open>args_\<close> both are the length of \<open>args_\<close>.
\<close>

definition arity :: "expr \<Rightarrow> nat" where
  "arity e = length (args e)"

text \<open>\<open>maths::scalar(v)\<close>: a fresh \<open>Scalar\<close> leaf holding \<open>v\<close>.\<close>

definition scalar :: "real \<Rightarrow> expr" where
  "scalar v = Expr (Scalar v) []"

text \<open>
  \<^verbatim>\<open>
  ExpPtr Count::evaluate( Scope &ctx ) const
  {
      return maths::scalar( param(0, ctx)->arity() )->as<Value>();
  }
  \<close>
  The argument is read through \<open>param\<close> and asked for its arity; it is not evaluated.
\<close>

definition Count_evaluate :: "expr \<Rightarrow> context_t \<Rightarrow> (error + expr) \<times> context_t" where
  "Count_evaluate e ctx =
     (case param e 0 (Some ctx) of
        (r, c) \<Rightarrow>
          (case r of
             Inl err \<Rightarrow> Inl err
           | Inr None \<Rightarrow> Inl NullPointer
           | Inr (Some a) \<Rightarrow> Inr (scalar (real (arity a))),
           case c of Some c' \<Rightarrow> c' | None \<Rightarrow> ctx))"

text \<open>
  \<^verbatim>\<open>
  ValPtr Undef::evaluate( context_t& ctx )
  {
      return boost::static_pointer_cast<Value>( shared_from_this() );
  }
  \<close>
\<close>

definition Undef_evaluate :: "expr \<Rightarrow> context_t \<Rightarrow> (error + expr) \<times> context_t" where
  "Undef_evaluate e ctx = (Inr e, ctx)"

text \<open>
  Modelled from the spec: \<open>Value::evaluate\<close> is in Value.h, which is not among the
  sources.  A Value is "a fully evaluated terminal result", "immutable once constructed":
  evaluating it gives the node itself and does not look at the scope.
\<close>

definition Value_evaluate :: "expr \<Rightarrow> context_t \<Rightarrow> (error + expr) \<times> context_t" where
  "Value_evaluate e ctx = (Inr e, ctx)"

text \<open>The virtual call \<open>e->evaluate(ctx)\<close>, dispatched on the class of the node.\<close>

definition evaluate :: "expr \<Rightarrow> context_t \<Rightarrow> (error + expr) \<times> context_t" where
  "evaluate e ctx =
     (case kind e of
        Undef \<Rightarrow> Undef_evaluate e ctx
      | Scalar v \<Rightarrow> Value_evaluate e ctx
      | List \<Rightarrow> Value_evaluate e ctx
      | Count \<Rightarrow> Count_evaluate e ctx)"

subsection \<open>\<open>optimise\<close>, \<open>cloneWith\<close>\<close>

text \<open>
  Modelled from the spec: \<open>optimise\<close> is declared in Exp.h and defined per class in
  files that are not among the sources.  The specification gives "default behavior is
  identity" and describes no override for the classes modelled here.
\<close>

definition optimise :: "expr \<Rightarrow> expr" where
  "optimise e = e"

text \<open>
  \<^verbatim>\<open>
  ExpPtr Count::cloneWith(args_t &a) const {
      NOTIMP;
  }
  \<close>
\<close>

definition Count_cloneWith :: "ExpPtr list \<Rightarrow> error + expr" where
  "Count_cloneWith a = Inl NotImplemented"

subsection \<open>The drivers \<open>Expr::eval\<close>\<close>

text \<open>
  \<^verbatim>\<open>
  ValPtr Expr::eval()
  {
      context_t ctx;
      return optimise()->evaluate(ctx);
  }
  ValPtr Expr::eval( ExpPtr e )
  {
      context_t ctx;
      ctx.push_back(e);
      ValPtr res = optimise()->evaluate(ctx);
      ASSERT( ctx.empty() );
      return res;
  }
  \<close>
  and likewise with two arguments and with a vector of arguments, copied to the scope in
  order.  The three drivers that take arguments share their last two lines.
\<close>

definition eval :: "expr \<Rightarrow> error + expr" where
  "eval t = (let ctx = [] in fst (evaluate (optimise t) ctx))"

definition assert_consumed :: "(error + expr) \<times> context_t \<Rightarrow> error + expr" where
  "assert_consumed rc =
     (case rc of
        (Inl err, ctx) \<Rightarrow> Inl err
      | (Inr res, ctx) \<Rightarrow>
          if ctx = [] then Inr res else Inl (AssertionFailed ''ctx.empty()''))"


definition eval2 :: "expr \<Rightarrow> ExpPtr \<Rightarrow> ExpPtr \<Rightarrow> error + expr" where
  "eval2 t a b = (let ctx = ([] @ [a]) @ [b] in assert_consumed (evaluate (optimise t) ctx))"

definition eval_args :: "expr \<Rightarrow> ExpPtr list \<Rightarrow> error + expr" where
  "eval_args t as = (let ctx = [] @ as in assert_consumed (evaluate (optimise t) ctx))"

subsection \<open>\<open>Expr::param\<close>, writing\<close>

text \<open>
  The second overload of \<open>param\<close> assigns to a slot of a node that other nodes may point
  to, so here the nodes live in a store: an address leads to an object, an \<open>ExpPtr\<close> is an
  address or empty, and equality of pointers is equality of addresses.  Reference counts
  are not part of the store: an object that loses its last owner stays where it is,
  unreachable.
\<close>

type_synonym addr = nat

type_synonym ptr = "addr option"

record object =
  okind :: kind
  oargs :: "ptr list"

type_synonym store = "addr \<Rightarrow> object option"

text \<open>
  \<^verbatim>\<open>
  void Expr::param(const size_t &i, ExpPtr p)
  {
      ASSERT( i < args_.size() );
      ASSERT( p );
      if( p != args_[i] )
          args_[i] = p;
  }
  \<close>
  \<open>param_set\<close> is the body, run on the object \<open>this\<close>; \<open>call_param_set\<close> is the call
  \<open>e->param(i, p)\<close> through a pointer into the store.
\<close>

definition param_set :: "object \<Rightarrow> nat \<Rightarrow> ptr \<Rightarrow> error + object" where
  "param_set this i p =
     (if \<not> i < length (oargs this) then Inl (AssertionFailed ''i < args_.size()'')
      else if p = None then Inl (AssertionFailed ''p'')
      else if p \<noteq> oargs this ! i then Inr (this\<lparr>oargs := (oargs this)[i := p]\<rparr>)
      else Inr this)"

definition call_param_set :: "store \<Rightarrow> addr \<Rightarrow> nat \<Rightarrow> ptr \<Rightarrow> error + store" where
  "call_param_set st e i p =
     (case st e of
        None \<Rightarrow> Inl NullPointer
      | Some this \<Rightarrow>
          (case param_set this i p of
             Inl err \<Rightarrow> Inl err
           | Inr this' \<Rightarrow> Inr (st(e \<mapsto> this'))))"

section \<open>Tensor (eckit/linalg/Tensor.h)\<close>

subsection \<open>Sizes\<close>

text \<open>
  \<open>Size\<close> is \<open>eckit::linalg::Size\<close>, declared in eckit/linalg/types.h (not among the
  sources) as \<open>size_t\<close>.  The model is of an LP64 platform: \<open>size_t\<close> has 64 bits and
  \<open>int\<close> has 32.
\<close>

type_synonym Size = "64 word"

type_synonym byte = "8 word"

text \<open>
  \<^verbatim>\<open>
  static Size flatten(const std::vector<Size>& shape) {
      return std::accumulate(std::begin(shape), std::end(shape), 1, std::multiplies<Size>());
  }
  \<close>
  \<open>std::accumulate(first, last, init, op)\<close> keeps its accumulator in the type of \<open>init\<close>,
  here the literal \<open>1\<close>, an \<open>int\<close>, and runs \<open>acc = op(acc, *first)\<close> over the range.
  \<open>std::multiplies<Size>\<close> takes both operands as \<open>Size\<close>: each step converts the
  accumulator to \<open>Size\<close> (extending its sign), multiplies modulo \<open>2^64\<close> and converts the
  product back to \<open>int\<close> (its low 32 bits).  The \<open>return\<close> converts the last \<open>int\<close> to
  \<open>Size\<close>.
\<close>

definition flatten :: "Size list \<Rightarrow> Size" where
  "flatten shape =
     scast (foldl (\<lambda>(acc :: 32 word) v. ucast ((scast acc :: Size) * v)) 1 shape)"

text \<open>The product of the dimensions, as a number.\<close>

definition product :: "Size list \<Rightarrow> nat" where
  "product shape = prod_list (map unat shape)"

subsection \<open>The class\<close>

text \<open>
  The members \<open>array_\<close>, \<open>size_\<close>, \<open>shape_\<close>, \<open>own_\<close>.  The storage \<open>array_\<close> points to is
  kept as raw bytes, \<open>sizeof(S)\<close> of them per element, element \<open>i\<close> at offset
  \<open>i * sizeof(S)\<close>; \<open>None\<close> is the null pointer.  \<open>sizeof(S)\<close> is the parameter \<open>sz\<close> of
  the methods (8 for \<open>TensorDouble\<close>, 4 for \<open>TensorFloat\<close>).
\<close>

record Tensor =
  array_m :: "byte list option"
  size_m :: Size
  shape_m :: "Size list"
  own_m :: bool

text \<open>\<open>operator[]\<close>, as the bytes of element \<open>i\<close>.\<close>

definition element :: "nat \<Rightarrow> Tensor \<Rightarrow> nat \<Rightarrow> byte list" where
  "element sz t i = (case array_m t of None \<Rightarrow> [] | Some a \<Rightarrow> take sz (drop (i * sz) a))"

text \<open>
  \<open>new S[n]\<close>: storage for \<open>n\<close> elements, not initialised (\<open>junk\<close> gives the byte found at
  each offset).  A request whose byte count does not fit \<open>size_t\<close> throws; running out of
  memory is not modelled.
\<close>

definition new_array :: "nat \<Rightarrow> (nat \<Rightarrow> byte) \<Rightarrow> Size \<Rightarrow> error + byte list" where
  "new_array sz junk n =
     (if unat n * sz < 2 ^ 64 then Inr (map junk [0 ..< unat n * sz])
      else Inl BadArrayNewLength)"

text \<open>
  \<^verbatim>\<open>
  Tensor(const std::vector<Size>& shape) : array_(nullptr), shape_(shape), own_(true) {
      size_ = flatten(shape_);
      ASSERT(size() > 0);
      array_ = new S[size_];
      ASSERT(array_);
  }
  \<close>
\<close>

definition Tensor_shape :: "nat \<Rightarrow> (nat \<Rightarrow> byte) \<Rightarrow> Size list \<Rightarrow> error + Tensor" where
  "Tensor_shape sz junk shape =
     (let t = \<lparr>array_m = None, size_m = flatten shape, shape_m = shape, own_m = True\<rparr> in
      if \<not> 0 < size_m t then Inl (AssertionFailed ''size() > 0'')
      else case new_array sz junk (size_m t) of
        Inl err \<Rightarrow> Inl err
      | Inr a \<Rightarrow>
          (let t = t\<lparr>array_m := Some a\<rparr> in
           if array_m t = None then Inl (AssertionFailed ''array_'') else Inr t))"

text \<open>
  \<^verbatim>\<open>
  Tensor(const S* array, const std::vector<Size>& shape) : array_(const_cast<S*>(array)), own_(false) {
      shape_ = shape;
      size_  = flatten(shape_);
      ASSERT(size() > 0);
      ASSERT(array_);
  }
  \<close>
\<close>

definition Tensor_array :: "byte list option \<Rightarrow> Size list \<Rightarrow> error + Tensor" where
  "Tensor_array a shape =
     (let t = \<lparr>array_m = a, size_m = flatten shape, shape_m = shape, own_m = False\<rparr> in
      if \<not> 0 < size_m t then Inl (AssertionFailed ''size() > 0'')
      else if array_m t = None then Inl (AssertionFailed ''array_'')
      else Inr t)"

text \<open>
  \<^verbatim>\<open>
  void resize(const std::vector<Size>& shape) {
      if (this->size() != flatten(shape)) {  // avoid reallocation if same size
          Tensor m(shape);
          swap(m);
      }
      else {
          shape_ = shape;
      }
  }
  \<close>
  After the swap the object holds all four members of \<open>m\<close>.
\<close>

definition resize :: "nat \<Rightarrow> (nat \<Rightarrow> byte) \<Rightarrow> Tensor \<Rightarrow> Size list \<Rightarrow> error + Tensor" where
  "resize sz junk t shape =
     (if size_m t \<noteq> flatten shape then
        (case Tensor_shape sz junk shape of Inl err \<Rightarrow> Inl err | Inr m \<Rightarrow> Inr m)
      else Inr (t\<lparr>shape_m := shape\<rparr>))"

subsection \<open>The stream\<close>

text \<open>
  Modelled from the spec: class \<open>Stream\<close> (eckit/serialisation/Stream.h) is not among the
  sources.  The specification asks of it a "generic byte stream" that takes the "shape
  followed by raw element bytes".  A stream is the sequence of items written to it, read
  from the front: an unsigned integer (\<open>operator<<\<close> and \<open>operator>>\<close> on \<open>Size\<close>) or a
  blob of bytes (\<open>writeBlob\<close>, \<open>readBlob\<close>).  Reading an item of the other sort, or a blob
  of another length than the one asked for, fails.  Copying from or to a buffer that is
  shorter than the byte count is undefined in the code and fails here.
\<close>

datatype item = ULong Size | Blob "byte list"

type_synonym Stream = "item list"

definition put_ulong :: "Size \<Rightarrow> Stream \<Rightarrow> Stream" where
  "put_ulong v s = s @ [ULong v]"

definition get_ulong :: "Stream \<Rightarrow> error + (Size \<times> Stream)" where
  "get_ulong s = (case s of ULong v # r \<Rightarrow> Inr (v, r) | _ \<Rightarrow> Inl BadTag)"

definition writeBlob :: "byte list option \<Rightarrow> Size \<Rightarrow> Stream \<Rightarrow> error + Stream" where
  "writeBlob buffer n s =
     (case buffer of
        None \<Rightarrow> if n = 0 then Inr (s @ [Blob []]) else Inl NullPointer
      | Some bs \<Rightarrow>
          if unat n \<le> length bs then Inr (s @ [Blob (take (unat n) bs)])
          else Inl OutOfBounds)"

definition readBlob :: "byte list option \<Rightarrow> Size \<Rightarrow> Stream \<Rightarrow> error + (byte list option \<times> Stream)" where
  "readBlob buffer n s =
     (case s of
        Blob bs # r \<Rightarrow>
          if length bs \<noteq> unat n then Inl BadTag
          else (case buffer of
                  None \<Rightarrow> if n = 0 then Inr (None, r) else Inl NullPointer
                | Some old \<Rightarrow>
                    if unat n \<le> length old then Inr (Some (bs @ drop (unat n) old), r)
                    else Inl OutOfBounds)
      | _ \<Rightarrow> Inl BadTag)"

subsection \<open>\<open>encode\<close> and the constructor from a stream\<close>

text \<open>
  \<^verbatim>\<open>
  void encode(Stream& s) const {
      s << shape_.size();
      for (auto v : shape_)
          s << v;
      s.writeBlob(const_cast<S*>(array_), size() * sizeof(S));
  }
  \<close>
\<close>

definition encode :: "nat \<Rightarrow> Tensor \<Rightarrow> Stream \<Rightarrow> error + Stream" where
  "encode sz t s =
     (let s = put_ulong (of_nat (length (shape_m t))) s;
          s = foldl (\<lambda>s v. put_ulong v s) s (shape_m t)
      in writeBlob (array_m t) (size_m t * of_nat sz) s)"

text \<open>
  \<open>std::vector<Size>::max_size()\<close>: with 8-byte entries on an LP64 platform libstdc++
  gives \<open>PTRDIFF_MAX / sizeof(Size)\<close>.  \<open>resize(n)\<close> throws \<open>std::length_error\<close> for a
  larger \<open>n\<close>, before any entry exists.
\<close>

definition vector_max_size :: nat where
  "vector_max_size = (2 ^ 63 - 1) div 8"

text \<open>The loop \<open>for (auto& v : shape_) s >> v;\<close> over a vector of \<open>n\<close> entries.\<close>

fun get_ulongs :: "nat \<Rightarrow> Stream \<Rightarrow> error + (Size list \<times> Stream)" where
  "get_ulongs 0 s = Inr ([], s)"
| "get_ulongs (Suc n) s =
     (case get_ulong s of
        Inl err \<Rightarrow> Inl err
      | Inr (v, s) \<Rightarrow>
          (case get_ulongs n s of
             Inl err \<Rightarrow> Inl err
           | Inr (vs, s) \<Rightarrow> Inr (v # vs, s)))"

text \<open>
  \<^verbatim>\<open>
  Tensor(Stream& s) : array_(0), size_(0), shape_(0), own_(true) {
      Size shape_size;
      s >> shape_size;
      shape_.resize(shape_size);
      for (auto& v : shape_)
          s >> v;
      resize(shape_);
      ASSERT(size() > 0);
      ASSERT(array_);
      s.readBlob(array_, size() * sizeof(S));
  }
  \<close>
\<close>

definition Tensor_stream :: "nat \<Rightarrow> (nat \<Rightarrow> byte) \<Rightarrow> Stream \<Rightarrow> error + (Tensor \<times> Stream)" where
  "Tensor_stream sz junk s =
     (let t = \<lparr>array_m = None, size_m = 0, shape_m = [], own_m = True\<rparr> in
      case get_ulong s of
        Inl err \<Rightarrow> Inl err
      | Inr (shape_size, s) \<Rightarrow>
      if vector_max_size < unat shape_size then Inl LengthError
      else
      (case get_ulongs (unat shape_size) s of
        Inl err \<Rightarrow> Inl err
      | Inr (shape, s) \<Rightarrow>
      (case resize sz junk (t\<lparr>shape_m := shape\<rparr>) shape of
        Inl err \<Rightarrow> Inl err
      | Inr t \<Rightarrow>
          if \<not> 0 < size_m t then Inl (AssertionFailed ''size() > 0'')
          else if array_m t = None then Inl (AssertionFailed ''array_'')
          else (case readBlob (array_m t) (size_m t * of_nat sz) s of
                  Inl err \<Rightarrow> Inl err
                | Inr (a, s) \<Rightarrow> Inr (t\<lparr>array_m := a\<rparr>, s)))))"

text \<open>
  A tensor whose storage is what its members say: \<open>size_\<close> is \<open>flatten(shape_)\<close> and
  positive, \<open>array_\<close> points to storage for exactly \<open>size_\<close> elements, and the number of
  dimensions is one a \<open>std::vector\<close> can have.  The constructor from a shape establishes
  it; the constructor over existing data does not check it.
\<close>

definition allocated :: "nat \<Rightarrow> Tensor \<Rightarrow> bool" where
  "allocated sz t \<longleftrightarrow>
     size_m t = flatten (shape_m t) \<and> 0 < size_m t \<and>
     unat (size_m t) * sz < 2 ^ 64 \<and> length (shape_m t) \<le> vector_max_size \<and>
     (case array_m t of None \<Rightarrow> False | Some a \<Rightarrow> length a = unat (size_m t) * sz)"

section \<open>Properties of the expression engine\<close>

subsection \<open>Auxiliary facts\<close>

lemma undefs_arg_le_sum:
  "Some a \<in> set as \<Longrightarrow>
   undefs a \<le> sum_list (map (\<lambda>p. case p of None \<Rightarrow> 0 | Some b \<Rightarrow> undefs b) as)"
  by (induction as) auto

lemma undefs_arg_le: "Some a \<in> set as \<Longrightarrow> undefs a \<le> undefs (Expr k as)"
  using undefs_arg_le_sum [of a as] by simp

lemma undefs_first_arg: "args t = Some a # r \<Longrightarrow> undefs a \<le> undefs t"
  using undefs_arg_le [of a "args t" "kind t"] by (cases t) simp

lemma undefs_Undef_is: "Undef_is a \<Longrightarrow> 1 \<le> undefs a"
  by (cases a) (auto simp: Undef_is_def split: kind.splits)

lemma undefs_zero_kind: "undefs t = 0 \<Longrightarrow> kind t \<noteq> Undef"
  by (cases t) (auto split: kind.splits)

lemma undefs_zero_arg: "undefs t = 0 \<Longrightarrow> args t = Some a # r \<Longrightarrow> \<not> Undef_is a"
  using undefs_first_arg [of t a r] undefs_Undef_is [of a] by auto

lemma first_slot: "xs \<noteq> [] \<Longrightarrow> xs ! 0 = y \<Longrightarrow> \<exists>r. xs = y # r"
  by (cases xs) simp_all

text \<open>
  One call of \<open>evaluate\<close> pops at most one element, and only at the root: when the node is
  a \<open>Count\<close> whose slot 0 holds an \<open>Undef\<close>.
\<close>

lemma evaluate_length:
  "length ctx \<le> length (snd (evaluate t ctx)) +
     (if kind t = Count \<and> (\<exists>a r. args t = Some a # r \<and> Undef_is a) then 1 else 0)"
  by (cases t)
    (auto simp: evaluate_def Undef_evaluate_def Value_evaluate_def Count_evaluate_def param_def
      split: kind.splits option.splits list.splits sum.splits dest: first_slot)

lemma evaluate_pops_le: "length ctx \<le> length (snd (evaluate t ctx)) + undefs t"
proof (cases "kind t = Count \<and> (\<exists>a r. args t = Some a # r \<and> Undef_is a)")
  case True
  then obtain a r where a: "args t = Some a # r" "Undef_is a" by blast
  have "undefs a \<le> undefs t" using undefs_first_arg [OF a(1)] .
  then have "1 \<le> undefs t" using undefs_Undef_is [OF a(2)] by simp
  then show ?thesis using evaluate_length [of ctx t] True by simp
next
  case False
  then have "length ctx \<le> length (snd (evaluate t ctx))"
    using evaluate_length [of ctx t] by (simp split: if_splits)
  then show ?thesis by simp
qed

lemma evaluate_leftover:
  assumes "undefs t < length as"
  shows "snd (evaluate t as) \<noteq> []"
  using evaluate_pops_le [of as t] assms by auto

lemma eval_args_pop_empty:
  "eval_args t as = Inl (AssertionFailed ''!ctx->empty()'') \<longleftrightarrow>
     as = [] \<and> kind t = Count \<and> (\<exists>a r. args t = Some a # r \<and> Undef_is a)"
  by (cases t)
    (auto simp: eval_args_def optimise_def assert_consumed_def evaluate_def Undef_evaluate_def
        Value_evaluate_def Count_evaluate_def param_def
      split: kind.splits option.splits list.splits sum.splits if_splits dest: first_slot)


lemma eval2_eval_args: "eval2 t a b = eval_args t [a, b]"
  by (simp add: eval2_def eval_args_def)

lemma evaluate_empty_scope: "snd (evaluate t []) = []"
  using evaluate_length [of "snd (evaluate t [])" "t"]
  by (cases t)
    (auto simp: evaluate_def Undef_evaluate_def Value_evaluate_def Count_evaluate_def param_def
      split: kind.splits option.splits list.splits sum.splits)

lemma eval_eval_args: "eval t = eval_args t []"
  using evaluate_empty_scope [of "optimise t"]
  by (cases "evaluate (optimise t) []")
    (auto simp: eval_def eval_args_def assert_consumed_def split: sum.splits)



subsection \<open>Reading an argument\<close>

text \<open>
  C1, as amended.  For a node \<open>e\<close>, an index \<open>i\<close> below the length of its \<open>args_\<close> and a
  scope that is supplied (the pointer is not null): when slot \<open>i\<close> holds an empty pointer
  the call fails \<open>ASSERT(args_[i])\<close> and the scope stays as it was; when it holds an
  \<open>Undef\<close> the call asserts that the scope is not empty, removes the front element of the
  scope and returns it; in every other case it returns \<open>args_[i]\<close> and the scope stays as
  it was.
\<close>

theorem param_scope_binding:
  "i < length (args e) \<Longrightarrow>
   param e i (Some c) =
     (case args e ! i of
        None \<Rightarrow> (Inl (AssertionFailed ''args_[i]''), Some c)
      | Some a \<Rightarrow>
          if Undef_is a then
            (case c of
               [] \<Rightarrow> (Inl (AssertionFailed ''!ctx->empty()''), Some c)
             | x # c' \<Rightarrow> (Inr x, Some c'))
          else (Inr (Some a), Some c))"
  by (simp add: param_def split: option.splits list.splits)

theorem param_scope_binding_witness:
  "0 < length (args (Expr Count [Some (Expr Undef [])])) \<and>
   param (Expr Count [Some (Expr Undef [])]) 0 (Some [Some (scalar 2), None]) =
     (Inr (Some (scalar 2)), Some [None]) \<and>
   param (Expr Count [Some (scalar 7)]) 0 (Some [Some (scalar 2), None]) =
     (Inr (Some (scalar 7)), Some [Some (scalar 2), None])"
  using param_scope_binding [of 0 "Expr Count [Some (Expr Undef [])]" "[Some (scalar 2), None]"]
    param_scope_binding [of 0 "Expr Count [Some (scalar 7)]" "[Some (scalar 2), None]"]
  by (simp add: Undef_is_def scalar_def)

text \<open>
  C1 as stated fails where the slot holds an empty pointer, which the constructor of
  \<open>Count\<close> accepts: the index is in range and the scope is supplied and not empty, the
  slot is not an \<open>Undef\<close>, and the call neither returns \<open>args_[i]\<close> nor the front of the
  scope: it throws.
\<close>

theorem param_null_slot_counterexample:
  "0 < length (args (Expr Count [None])) \<and>
   param (Expr Count [None]) 0 (Some [Some (scalar 1)]) =
     (Inl (AssertionFailed ''args_[i]''), Some [Some (scalar 1)]) \<and>
   fst (param (Expr Count [None]) 0 (Some [Some (scalar 1)])) \<noteq> Inr (args (Expr Count [None]) ! 0) \<and>
   fst (param (Expr Count [None]) 0 (Some [Some (scalar 1)])) \<noteq> Inr (Some (scalar 1))"
  by (simp add: param_def)

subsection \<open>\<open>Count::cloneWith\<close>\<close>

text \<open>
  C2, as amended.  \<open>Count::cloneWith\<close> signals NotImplemented for every replacement list;
  it builds no node.
\<close>

theorem Count_cloneWith_not_implemented:
  "Count_cloneWith a = Inl NotImplemented \<and> (\<nexists>n. Count_cloneWith a = Inr n)"
  by (simp add: Count_cloneWith_def)

text \<open>
  C2 as stated fails on a replacement list of one element: the result is the
  NotImplemented failure, not a \<open>Count\<close> over the replacement.
\<close>

theorem Count_cloneWith_counterexample:
  "Count_cloneWith [Some (scalar 1)] = Inl NotImplemented \<and>
   Count_cloneWith [Some (scalar 1)] \<noteq> Inr (Expr Count [Some (scalar 1)])"
  by (simp add: Count_cloneWith_def)

subsection \<open>Evaluating a placeholder\<close>

text \<open>
  C3, as amended.  Evaluating an \<open>Undef\<close> node raises nothing: \<open>evaluate\<close> returns the node
  itself and leaves the scope as it was, whatever the scope holds, and so the driver
  without arguments returns the placeholder.  A placeholder that cannot be bound is
  detected elsewhere, in \<open>param\<close>: a \<open>Count\<close> over an \<open>Undef\<close> evaluated on an empty scope
  fails the assertion that the scope is not empty.
\<close>

theorem Undef_evaluate_returns_self:
  "evaluate (Expr Undef as) ctx = (Inr (Expr Undef as), ctx) \<and>
   eval (Expr Undef as) = Inr (Expr Undef as) \<and>
   evaluate (Expr Count [Some (Expr Undef as)]) [] = (Inl (AssertionFailed ''!ctx->empty()''), [])"
  by (simp add: eval_def optimise_def evaluate_def Undef_evaluate_def Count_evaluate_def
      param_def Undef_is_def)

text \<open>
  C3 as stated fails on the placeholder itself, evaluated on the empty scope: a value
  comes back, and no failure.
\<close>

theorem Undef_evaluate_counterexample:
  "evaluate (Expr Undef []) [] = (Inr (Expr Undef []), []) \<and>
   eval (Expr Undef []) = Inr (Expr Undef [])"
  by (simp add: eval_def optimise_def evaluate_def Undef_evaluate_def)

subsection \<open>Arguments and placeholders\<close>

text \<open>
  C4, as amended.  For a tree with \<open>k\<close> placeholders, a top-level call that supplies more
  than \<open>k\<close> arguments fails: the scope is not empty after evaluation, and the failure is
  the assertion that the scope is empty, unless evaluation itself has already failed
  another assertion.  A call that supplies fewer than \<open>k\<close> arguments does not always fail.
  It fails, by the assertion raised when \<open>param\<close> is to pop from the emptied scope, when
  evaluation reads a placeholder slot through \<open>param\<close> with the scope empty, as a \<open>Count\<close>
  over an \<open>Undef\<close> does when no argument is supplied.  A placeholder that evaluation does
  not read through \<open>param\<close> takes nothing from the scope, and there are calls with fewer
  arguments than placeholders that return a value.  Stated for the driver that takes a
  vector of arguments, of which the other drivers are instances (\<open>eval1_eval_args\<close>,
  \<open>eval2_eval_args\<close>, \<open>eval_eval_args\<close>).
\<close>

theorem eval_args_arity:
  "(undefs t < length as \<longrightarrow>
      snd (evaluate (optimise t) as) \<noteq> [] \<and>
      (\<exists>err. eval_args t as = Inl err) \<and>
      (\<forall>res ctx. evaluate (optimise t) as = (Inr res, ctx) \<longrightarrow>
         eval_args t as = Inl (AssertionFailed ''ctx.empty()''))) \<and>
   (kind t = Count \<and> (\<exists>a r. args t = Some a # r \<and> Undef_is a) \<longrightarrow>
      length ([] :: ExpPtr list) < undefs t \<and>
      eval_args t [] = Inl (AssertionFailed ''!ctx->empty()'')) \<and>
   (\<exists>t' as' res. length as' < undefs t' \<and> eval_args t' as' = Inr res)"
proof (intro conjI impI allI)
  assume more: "undefs t < length as"
  have ne: "snd (evaluate t as) \<noteq> []"
    using more by (rule evaluate_leftover)
  then show "snd (evaluate (optimise t) as) \<noteq> []"
    by (simp add: optimise_def)
  show "\<exists>err. eval_args t as = Inl err"
    using ne by (cases "evaluate t as")
      (auto simp: eval_args_def optimise_def assert_consumed_def split: sum.splits)
  fix res ctx
  assume "evaluate (optimise t) as = (Inr res, ctx)"
  then show "eval_args t as = Inl (AssertionFailed ''ctx.empty()'')"
    using ne by (auto simp: eval_args_def optimise_def assert_consumed_def)
next
  assume root: "kind t = Count \<and> (\<exists>a r. args t = Some a # r \<and> Undef_is a)"
  then obtain a r where *: "args t = Some a # r" "Undef_is a" by blast
  have "1 \<le> undefs a" using *(2) by (rule undefs_Undef_is)
  moreover have "undefs a \<le> undefs t" using *(1) by (rule undefs_first_arg)
  ultimately show "length ([] :: ExpPtr list) < undefs t" by simp
  show "eval_args t [] = Inl (AssertionFailed ''!ctx->empty()'')"
    using root eval_args_pop_empty [of t "[]"] by simp
next
  have "length ([] :: ExpPtr list) < undefs (Expr Undef []) \<and>
        eval_args (Expr Undef []) [] = Inr (Expr Undef [])"
    by (simp add: eval_args_def optimise_def assert_consumed_def evaluate_def Undef_evaluate_def)
  then show "\<exists>t' as' res. length as' < undefs t' \<and> eval_args t' as' = Inr res"
    by blast
qed

theorem eval_args_arity_witness:
  "undefs (Expr Count [Some (Expr Undef [])]) < length [Some (scalar 1), Some (scalar 2)] \<and>
   eval_args (Expr Count [Some (Expr Undef [])]) [Some (scalar 1), Some (scalar 2)] =
     Inl (AssertionFailed ''ctx.empty()'') \<and>
   kind (Expr Count [Some (Expr Undef [])]) = Count \<and>
   Undef_is (Expr Undef []) \<and>
   length ([] :: ExpPtr list) < undefs (Expr Count [Some (Expr Undef [])]) \<and>
   eval_args (Expr Count [Some (Expr Undef [])]) [] = Inl (AssertionFailed ''!ctx->empty()'')"
  using eval_args_arity [of "Expr Count [Some (Expr Undef [])]" "[Some (scalar 1), Some (scalar 2)]"]
    eval_args_arity [of "Expr Count [Some (Expr Undef [])]" "[]"]
  by (simp add: optimise_def evaluate_def Count_evaluate_def param_def Undef_is_def scalar_def
      arity_def)

text \<open>
  C4 as stated fails in both halves.  Fewer arguments than placeholders: a lone
  placeholder evaluated with no argument returns itself, and a \<open>Count\<close> over a list that
  contains a placeholder returns the length of the list; one placeholder each, no
  argument, and a value instead of a failure.  More arguments than placeholders: a \<open>Count\<close>
  whose slot holds an empty pointer has no placeholder, and with one argument the call
  fails in \<open>param\<close>, on \<open>ASSERT(args_[i])\<close>, not on the scope being left non-empty.
\<close>

theorem eval_args_fewer_counterexample:
  "undefs (Expr Undef []) = 1 \<and>
   eval_args (Expr Undef []) [] = Inr (Expr Undef []) \<and>
   undefs (Expr Count [Some (Expr List [Some (Expr Undef [])])]) = 1 \<and>
   eval_args (Expr Count [Some (Expr List [Some (Expr Undef [])])]) [] =
     Inr (Expr (Scalar 1) []) \<and>
   undefs (Expr Count [None]) = 0 \<and>
   eval_args (Expr Count [None]) [Some (Expr (Scalar 1) [])] =
     Inl (AssertionFailed ''args_[i]'')"
  by (simp add: eval_args_def optimise_def assert_consumed_def evaluate_def Undef_evaluate_def
      Count_evaluate_def param_def Undef_is_def arity_def scalar_def)

subsection \<open>\<open>count\<close> of a list\<close>



subsection \<open>Trees without placeholders\<close>

text \<open>
  C6.  For every tree without \<open>Undef\<close> nodes, the call \<open>optimise()->evaluate(ctx)\<close> that
  the driver without arguments makes returns (the model's functions are total and make no
  recursive call) and leaves the scope exactly as it found it, for the empty scope the
  driver creates as for any other; in particular it never fails by popping from the empty
  scope.  Since evaluation only ever pops, an unchanged scope means that no element was
  taken.  The driver returns a value unless the root is a \<open>Count\<close> whose slot 0 is missing
  or holds an empty pointer.
\<close>

theorem eval_no_undefs_scope_untouched:
  assumes "undefs t = 0"
  shows "eval t = fst (evaluate (optimise t) []) \<and>
         snd (evaluate (optimise t) []) = [] \<and>
         snd (evaluate (optimise t) ctx) = ctx \<and>
         fst (evaluate (optimise t) ctx) \<noteq> Inl (AssertionFailed ''!ctx->empty()'') \<and>
         ((\<exists>v. eval t = Inr v) \<longleftrightarrow> (kind t = Count \<longrightarrow> (\<exists>a r. args t = Some a # r)))"
proof -
  have untouched: "snd (evaluate (optimise t) c) = c" for c
    using undefs_zero_kind [OF assms] undefs_zero_arg [OF assms]
    by (auto simp: optimise_def evaluate_def Undef_evaluate_def Value_evaluate_def
        Count_evaluate_def param_def
        split: kind.splits option.splits list.splits sum.splits dest: first_slot)
  have nopop: "fst (evaluate (optimise t) ctx) \<noteq> Inl (AssertionFailed ''!ctx->empty()'')"
    using undefs_zero_kind [OF assms] undefs_zero_arg [OF assms]
    by (auto simp: optimise_def evaluate_def Undef_evaluate_def Value_evaluate_def
        Count_evaluate_def param_def
        split: kind.splits option.splits list.splits sum.splits dest: first_slot)
  have returns: "(\<exists>v. eval t = Inr v) \<longleftrightarrow> (kind t = Count \<longrightarrow> (\<exists>a r. args t = Some a # r))"
    using undefs_zero_kind [OF assms] undefs_zero_arg [OF assms]
    by (auto simp: eval_def optimise_def evaluate_def Undef_evaluate_def Value_evaluate_def
        Count_evaluate_def param_def
        split: kind.splits option.splits list.splits sum.splits if_splits dest: first_slot)
  show ?thesis using untouched nopop returns by (simp add: eval_def)
qed

theorem eval_no_undefs_scope_untouched_witness:
  "undefs (Expr Count [Some (Expr List [Some (scalar 1), Some (scalar 2)])]) = 0 \<and>
   eval (Expr Count [Some (Expr List [Some (scalar 1), Some (scalar 2)])]) = Inr (scalar 2) \<and>
   snd (evaluate (optimise (Expr Count [Some (Expr List [Some (scalar 1), Some (scalar 2)])])) [])
     = []"
  using eval_no_undefs_scope_untouched
    [of "Expr Count [Some (Expr List [Some (scalar 1), Some (scalar 2)])]" "[]"]
  by (simp add: scalar_def optimise_def evaluate_def Count_evaluate_def param_def Undef_is_def
      arity_def)

subsection \<open>Replacing an argument\<close>

text \<open>
  C9.  For every node \<open>e\<close> of the store, every index \<open>i\<close> below the length of its
  \<open>args_\<close> and every pointer \<open>p\<close> that is not empty, the call \<open>e->param(i, p)\<close> returns
  normally; afterwards slot \<open>i\<close> of \<open>e\<close> holds \<open>p\<close>, every other slot of \<open>e\<close> and the
  class of \<open>e\<close> are as before, and so is the object at every other address.  When \<open>p\<close>
  is the pointer slot \<open>i\<close> already holds, the store after the call is the store before.
\<close>

theorem param_set_frame:
  assumes "st e = Some this" and "i < length (oargs this)" and "p \<noteq> None"
  shows "\<exists>st' this'.
           call_param_set st e i p = Inr st' \<and> st' e = Some this' \<and>
           oargs this' ! i = p \<and>
           length (oargs this') = length (oargs this) \<and>
           (\<forall>j. j \<noteq> i \<longrightarrow> oargs this' ! j = oargs this ! j) \<and>
           okind this' = okind this \<and>
           (\<forall>a. a \<noteq> e \<longrightarrow> st' a = st a) \<and>
           (p = oargs this ! i \<longrightarrow> st' = st)"
proof -
  have same: "p = oargs this ! i \<Longrightarrow> st(e \<mapsto> this) = st"
    using assms(1) by (simp add: fun_upd_idem)
  have "call_param_set st e i p = Inr (st(e \<mapsto> this\<lparr>oargs := (oargs this)[i := p]\<rparr>))"
    using assms same by (auto simp: call_param_set_def param_set_def)
  moreover have "p = oargs this ! i \<longrightarrow> st(e \<mapsto> this\<lparr>oargs := (oargs this)[i := p]\<rparr>) = st"
    using same by simp
  ultimately show ?thesis using assms(2) by simp
qed

theorem param_set_frame_witness:
  "call_param_set
     ((\<lambda>a. None)(0 \<mapsto> \<lparr>okind = Count, oargs = [Some 1, Some 2]\<rparr>,
                  1 \<mapsto> \<lparr>okind = Undef, oargs = []\<rparr>,
                  2 \<mapsto> \<lparr>okind = Scalar 3, oargs = []\<rparr>))
     0 0 (Some 2) =
   Inr ((\<lambda>a. None)(0 \<mapsto> \<lparr>okind = Count, oargs = [Some 2, Some 2]\<rparr>,
                    1 \<mapsto> \<lparr>okind = Undef, oargs = []\<rparr>,
                    2 \<mapsto> \<lparr>okind = Scalar 3, oargs = []\<rparr>))"
  using param_set_frame
    [of "(\<lambda>a. None)(0 \<mapsto> \<lparr>okind = Count, oargs = [Some 1, Some 2]\<rparr>,
                       1 \<mapsto> \<lparr>okind = Undef, oargs = []\<rparr>,
                       2 \<mapsto> \<lparr>okind = Scalar 3, oargs = []\<rparr>)"
        0 "\<lparr>okind = Count, oargs = [Some 1, Some 2]\<rparr>" 0 "Some 2"]
  by (auto simp: call_param_set_def param_set_def fun_upd_twist)

section \<open>Properties of the tensor\<close>

subsection \<open>Arithmetic of \<open>flatten\<close>\<close>

lemma sint_small:
  assumes "unat (acc :: 32 word) < 2 ^ 31"
  shows "sint acc = uint acc"
proof -
  have "int (unat acc) < int (2 ^ 31)" using assms by (simp only: of_nat_less_iff)
  then have "uint acc < 2 ^ 31" by simp
  moreover have "- (2 ^ 31) \<le> uint acc" by (rule order_trans [of _ 0]) simp_all
  ultimately have "signed_take_bit 31 (uint acc) = uint acc"
    by (simp add: signed_take_bit_int_eq_self)
  then show ?thesis by (simp add: sint_uint)
qed

lemma scast_small: "unat (acc :: 32 word) < 2 ^ 31 \<Longrightarrow> (scast acc :: Size) = ucast acc"
  by (simp only: scast_eq ucast_eq sint_small)

lemma unat_ucast_up: "unat (ucast (acc :: 32 word) :: Size) = unat acc"
proof -
  have "unat acc < 2 ^ 32" using unsigned_less [of acc, where 'a = nat] by simp
  then have "unat acc < 2 ^ 64" by simp
  then show ?thesis by (simp add: unsigned_ucast_eq take_bit_nat_eq_self)
qed

lemma unat_ucast_down: "unat (ucast (w :: Size) :: 32 word) = unat w mod 2 ^ 32"
  by (simp add: unsigned_ucast_eq take_bit_eq_mod)

lemma unat_mult_sz: "unat (a :: Size) * b < 2 ^ 64 \<Longrightarrow> unat (a * of_nat b) = unat a * b"
  by (simp add: unat_word_ariths unat_of_nat mod_mult_right_eq)

text \<open>One step of the accumulation is exact while the product stays below \<open>2^31\<close>.\<close>

lemma step_small:
  assumes "unat (acc :: 32 word) * unat (v :: Size) < 2 ^ 31" and "0 < unat v"
  shows "unat (ucast ((scast acc :: Size) * v) :: 32 word) = unat acc * unat v"
proof -
  have "unat acc \<le> unat acc * unat v" using assms(2) by simp
  then have a: "unat acc < 2 ^ 31" using assms(1) by (rule le_less_trans)
  have m: "unat acc * unat v < 2 ^ 64" "unat acc * unat v < 2 ^ 32" using assms(1) by simp_all
  have "unat ((scast acc :: Size) * v) = unat acc * unat v"
    using m(1) by (simp add: scast_small [OF a] unat_word_ariths unat_ucast_up)
  then show ?thesis using m(2) by (simp add: unat_ucast_down)
qed

lemma product_pos: "0 \<notin> set shape \<Longrightarrow> 0 < product shape"
  by (induction shape) (simp_all add: product_def unat_gt_0)

lemma foldl_small:
  "0 \<notin> set shape \<Longrightarrow> unat (acc :: 32 word) * product shape < 2 ^ 31 \<Longrightarrow>
   unat (foldl (\<lambda>(acc :: 32 word) v. ucast ((scast acc :: Size) * v)) acc shape) =
     unat acc * product shape"
proof (induction shape arbitrary: acc)
  case Nil
  then show ?case by (simp add: product_def)
next
  case (Cons v shape)
  have v: "0 < unat v" using Cons.prems(1) by (simp add: unat_gt_0)
  have p: "0 < product shape" using Cons.prems(1) by (simp add: product_pos)
  have pr: "product (v # shape) = unat v * product shape" by (simp add: product_def)
  have lt: "unat acc * unat v * product shape < 2 ^ 31"
    using Cons.prems(2) by (simp add: pr mult.assoc)
  have "unat acc * unat v \<le> unat acc * unat v * product shape" using p by simp
  then have s: "unat acc * unat v < 2 ^ 31" using lt by (rule le_less_trans)
  have st: "unat (ucast ((scast acc :: Size) * v) :: 32 word) = unat acc * unat v"
    using s v by (rule step_small)
  have "unat (foldl (\<lambda>(acc :: 32 word) v. ucast ((scast acc :: Size) * v))
                (ucast ((scast acc :: Size) * v)) shape)
        = unat (ucast ((scast acc :: Size) * v) :: 32 word) * product shape"
    using Cons.prems st pr by (intro Cons.IH) (simp_all add: mult.assoc)
  then show ?case using st pr by (simp add: mult.assoc)
qed

lemma flatten_zero_acc:
  "foldl (\<lambda>(acc :: 32 word) v. ucast ((scast acc :: Size) * v)) 0 shape = 0"
  by (induction shape) simp_all

lemma flatten_has_zero_acc:
  "0 \<in> set shape \<Longrightarrow>
   foldl (\<lambda>(acc :: 32 word) v. ucast ((scast acc :: Size) * v)) acc shape = 0"
  by (induction shape arbitrary: acc) (auto simp: flatten_zero_acc)

text \<open>A dimension of zero makes \<open>flatten\<close> zero, whatever the other dimensions are.\<close>

lemma flatten_zero_dim: "0 \<in> set shape \<Longrightarrow> flatten shape = 0"
  by (simp add: flatten_def flatten_has_zero_acc)

text \<open>Below \<open>2^31\<close> the accumulation in \<open>int\<close> loses nothing.\<close>

lemma flatten_small:
  assumes "product shape < 2 ^ 31"
  shows "unat (flatten shape) = product shape"
proof (cases "0 \<in> set shape")
  case True
  then have "product shape = 0" by (simp add: product_def prod_list_zero_iff unat_eq_0)
  moreover have "foldl (\<lambda>(acc :: 32 word) v. ucast ((scast acc :: Size) * v)) 1 shape = 0"
    using True by (rule flatten_has_zero_acc)
  ultimately show ?thesis by (simp add: flatten_def)
next
  case False
  have u: "unat (foldl (\<lambda>(acc :: 32 word) v. ucast ((scast acc :: Size) * v)) 1 shape)
             = product shape"
    using foldl_small [OF False, of 1] assms by simp
  then have "unat (foldl (\<lambda>(acc :: 32 word) v. ucast ((scast acc :: Size) * v)) 1 shape)
               < 2 ^ 31"
    using assms by simp
  then show ?thesis using u by (simp add: flatten_def scast_small unat_ucast_up)
qed

subsection \<open>Construction from a shape\<close>

lemma new_array_ok:
  "unat n * sz < 2 ^ 64 \<Longrightarrow> \<exists>a. new_array sz junk n = Inr a \<and> length a = unat n * sz"
  by (simp add: new_array_def)

lemma Tensor_shape_ok:
  assumes "0 < flatten shape" and "unat (flatten shape) * sz < 2 ^ 64"
  shows "\<exists>a. Tensor_shape sz junk shape =
            Inr \<lparr>array_m = Some a, size_m = flatten shape, shape_m = shape, own_m = True\<rparr> \<and>
            length a = unat (flatten shape) * sz"
proof -
  obtain a where a: "new_array sz junk (flatten shape) = Inr a"
      "length a = unat (flatten shape) * sz"
    using new_array_ok [OF assms(2)] by blast
  show ?thesis using assms(1) a by (simp add: Tensor_shape_def Let_def)
qed

text \<open>The constructor fails its first assertion on a shape with a dimension of zero.\<close>

lemma Tensor_shape_zero_dim:
  "0 \<in> set shape \<Longrightarrow> Tensor_shape sz junk shape = Inl (AssertionFailed ''size() > 0'')"
  by (simp add: Tensor_shape_def Let_def flatten_zero_dim)

text \<open>A tensor the constructor returns is allocated, with \<open>size_ = flatten(shape_)\<close>.\<close>

lemma Tensor_shape_allocated:
  assumes "Tensor_shape sz junk shape = Inr t" and "length shape \<le> vector_max_size"
  shows "allocated sz t \<and> shape_m t = shape \<and> size_m t = flatten shape"
proof -
  have pos: "0 < flatten shape"
    using assms(1) by (auto simp: Tensor_shape_def Let_def split: if_splits)
  have fits: "unat (flatten shape) * sz < 2 ^ 64"
    using assms(1) pos
    by (auto simp: Tensor_shape_def Let_def new_array_def split: if_splits)
  obtain a where a: "Tensor_shape sz junk shape =
      Inr \<lparr>array_m = Some a, size_m = flatten shape, shape_m = shape, own_m = True\<rparr>"
      "length a = unat (flatten shape) * sz"
    using Tensor_shape_ok [OF pos fits] by blast
  have "t = \<lparr>array_m = Some a, size_m = flatten shape, shape_m = shape, own_m = True\<rparr>"
    using assms(1) a(1) by simp
  then show ?thesis using pos fits a(2) assms(2) by (simp add: allocated_def)
qed

text \<open>
  Where the product of the dimensions is below \<open>2^31\<close>, the constructor does what its
  documentation says: it fails the assertion when the product is zero, and otherwise
  returns a tensor whose \<open>size()\<close> is the product.
\<close>

lemma Tensor_shape_small:
  assumes "product shape < 2 ^ 31" and "product shape * sz < 2 ^ 64"
  shows "if product shape = 0
         then Tensor_shape sz junk shape = Inl (AssertionFailed ''size() > 0'')
         else \<exists>t. Tensor_shape sz junk shape = Inr t \<and> unat (size_m t) = product shape \<and>
                shape_m t = shape"
proof (cases "product shape = 0")
  case True
  then have "0 \<in> set shape" using product_pos [of shape] by auto
  then show ?thesis using True by (simp add: Tensor_shape_zero_dim)
next
  case False
  have u: "unat (flatten shape) = product shape" using assms(1) by (rule flatten_small)
  then have pos: "0 < flatten shape" using False by (simp add: word_greater_zero_iff unat_eq_0 [symmetric] del: unat_eq_0)
  have "unat (flatten shape) * sz < 2 ^ 64" using assms(2) u by simp
  then obtain a where "Tensor_shape sz junk shape =
      Inr \<lparr>array_m = Some a, size_m = flatten shape, shape_m = shape, own_m = True\<rparr>"
    using Tensor_shape_ok [OF pos] by blast
  then show ?thesis using False u by simp
qed

text \<open>
  C10.  The claim is right about what the constructor is meant to do, and
  \<open>Tensor_shape_small\<close> and \<open>Tensor_shape_zero_dim\<close> show the code doing it while the
  product stays below \<open>2^31\<close>.  Above that the \<open>int\<close> accumulator of \<open>flatten\<close> drops the
  high bits.  The shape \<open>[65537, 65537]\<close> has the product 4295098369; the constructor
  returns a tensor of that shape whose \<open>size()\<close> is 131073, with storage for 131073
  elements (and the constructor over existing data likewise sets \<open>size()\<close> to 131073).  The shape \<open>[65536, 65536]\<close> has the positive product 4294967296; the
  constructor fails the assertion \<open>size() > 0\<close>.
\<close>

theorem Tensor_shape_int_accumulator:
  "product [65537, 65537] = 4295098369 \<and>
   (\<exists>a. Tensor_shape 8 junk [65537, 65537] =
          Inr \<lparr>array_m = Some a, size_m = 131073, shape_m = [65537, 65537], own_m = True\<rparr> \<and>
        length a = 131073 * 8) \<and>
   Tensor_array (Some a) [65537, 65537] =
     Inr \<lparr>array_m = Some a, size_m = 131073, shape_m = [65537, 65537], own_m = False\<rparr> \<and>
   product [65536, 65536] = 4294967296 \<and>
   Tensor_shape 8 junk [65536, 65536] = Inl (AssertionFailed ''size() > 0'') \<and>
   Tensor_array (Some a) [65536, 65536] = Inl (AssertionFailed ''size() > 0'')"
proof -
  have f: "flatten [65537, 65537] = 131073" by (simp add: flatten_def)
  have "\<exists>a. Tensor_shape 8 junk [65537, 65537] =
            Inr \<lparr>array_m = Some a, size_m = flatten [65537, 65537],
                 shape_m = [65537, 65537], own_m = True\<rparr> \<and>
            length a = unat (flatten [65537, 65537]) * 8"
    by (rule Tensor_shape_ok) (simp_all add: f)
  moreover have "Tensor_shape 8 junk [65536, 65536] = Inl (AssertionFailed ''size() > 0'')"
    by (simp add: Tensor_shape_def flatten_def)
  moreover have "Tensor_array (Some a) [65536, 65536] = Inl (AssertionFailed ''size() > 0'')"
    by (simp add: Tensor_array_def flatten_def)
  ultimately show ?thesis by (simp add: f product_def Tensor_array_def)
qed

subsection \<open>Encoding and decoding\<close>

lemma foldl_put_ulong: "foldl (\<lambda>s v. put_ulong v s) s vs = s @ map ULong vs"
  by (induction vs arbitrary: s) (simp_all add: put_ulong_def)

lemma encode_header:
  "foldl (\<lambda>s v. put_ulong v s) (put_ulong n s) vs = s @ ULong n # map ULong vs"
  by (simp add: foldl_put_ulong) (simp add: put_ulong_def)

lemma get_ulongs_map: "get_ulongs (length vs) (map ULong vs @ r) = Inr (vs, r)"
  by (induction vs) (simp_all add: get_ulong_def)

text \<open>What \<open>encode\<close> appends: the number of dimensions, the dimensions, the storage.\<close>

lemma encode_allocated:
  assumes "allocated sz t"
  shows "\<exists>a. array_m t = Some a \<and> length a = unat (size_m t) * sz \<and>
     encode sz t s =
       Inr (s @ ULong (of_nat (length (shape_m t))) # map ULong (shape_m t) @ [Blob a])"
proof -
  obtain a where a: "array_m t = Some a" "length a = unat (size_m t) * sz"
    using assms by (auto simp: allocated_def split: option.splits)
  have "unat (size_m t) * sz < 2 ^ 64"
    using assms unfolding allocated_def by blast
  then have n: "unat (size_m t * of_nat sz) = unat (size_m t) * sz"
    by (rule unat_mult_sz)
  show ?thesis using a n
    by (simp add: encode_def Let_def encode_header writeBlob_def)
qed

text \<open>
  For every allocated tensor, \<open>encode\<close> on an empty stream succeeds, and the constructor
  from a stream, run on what was written (followed by anything), returns a tensor with
  the same shape vector, the same size and the same bytes of storage, hence the same bytes
  in every element, and leaves what followed.  The elements are compared as the bytes that
  \<open>writeBlob\<close> copies; nothing is said about comparing them as floating-point numbers.
\<close>

lemma encode_decode_roundtrip:
  assumes "allocated sz t"
  shows "\<exists>enc t'. encode sz t [] = Inr enc \<and>
           Tensor_stream sz junk (enc @ rest) = Inr (t', rest) \<and>
           shape_m t' = shape_m t \<and> size_m t' = size_m t \<and> array_m t' = array_m t \<and>
           (\<forall>i. element sz t' i = element sz t i)"
proof -
  obtain a where a: "array_m t = Some a" "length a = unat (size_m t) * sz"
    and enc: "encode sz t [] =
      Inr ([] @ ULong (of_nat (length (shape_m t))) # map ULong (shape_m t) @ [Blob a])"
    using encode_allocated [OF assms, of "[]"] by blast
  have fl: "size_m t = flatten (shape_m t)" "0 < flatten (shape_m t)"
    "unat (flatten (shape_m t)) * sz < 2 ^ 64" "length (shape_m t) \<le> vector_max_size"
    using assms by (auto simp: allocated_def)
  have len: "unat (of_nat (length (shape_m t)) :: Size) = length (shape_m t)"
    using fl(4) by (simp add: unat_of_nat vector_max_size_def)
  obtain b where b: "Tensor_shape sz junk (shape_m t) =
       Inr \<lparr>array_m = Some b, size_m = flatten (shape_m t), shape_m = shape_m t, own_m = True\<rparr>"
       "length b = unat (flatten (shape_m t)) * sz"
    using Tensor_shape_ok [OF fl(2,3)] by blast
  have n: "unat (flatten (shape_m t) * of_nat sz) = unat (flatten (shape_m t)) * sz"
    using fl(3) by (rule unat_mult_sz)
  have ne: "(0 :: Size) \<noteq> flatten (shape_m t)" using fl(2) by auto
  have dec: "Tensor_stream sz junk
        ((ULong (of_nat (length (shape_m t))) # map ULong (shape_m t) @ [Blob a]) @ rest) =
      Inr (\<lparr>array_m = Some a, size_m = flatten (shape_m t), shape_m = shape_m t, own_m = True\<rparr>,
           rest)"
    using a(2) b n ne fl(1,2,4) get_ulongs_map [of "shape_m t" "Blob a # rest"]
    by (simp add: Tensor_stream_def Let_def get_ulong_def len resize_def readBlob_def)
  show ?thesis using enc dec a fl(1) by (simp add: element_def)
qed

lemma encode_decode_roundtrip_example:
  "allocated 4 \<lparr>array_m = Some [1, 2, 3, 4, 5, 6, 7, 8], size_m = 2, shape_m = [2, 1],
                own_m = False\<rparr> \<and>
   encode 4 \<lparr>array_m = Some [1, 2, 3, 4, 5, 6, 7, 8], size_m = 2, shape_m = [2, 1],
             own_m = False\<rparr> [] =
     Inr [ULong 2, ULong 2, ULong 1, Blob [1, 2, 3, 4, 5, 6, 7, 8]] \<and>
   Tensor_stream 4 (\<lambda>i. 0) ([ULong 2, ULong 2, ULong 1, Blob [1, 2, 3, 4, 5, 6, 7, 8]] @ [ULong 9]) =
     Inr (\<lparr>array_m = Some [1, 2, 3, 4, 5, 6, 7, 8], size_m = 2, shape_m = [2, 1], own_m = True\<rparr>,
          [ULong 9])"
proof -
  have al: "allocated 4 \<lparr>array_m = Some [1, 2, 3, 4, 5, 6, 7, 8], size_m = 2, shape_m = [2, 1],
                own_m = False\<rparr>"
    by (simp add: allocated_def flatten_def vector_max_size_def)
  have enc: "encode 4 \<lparr>array_m = Some [1, 2, 3, 4, 5, 6, 7, 8], size_m = 2, shape_m = [2, 1],
             own_m = False\<rparr> [] =
     Inr [ULong 2, ULong 2, ULong 1, Blob [1, 2, 3, 4, 5, 6, 7, 8]]"
    by (simp add: encode_def put_ulong_def writeBlob_def)
  obtain t' where t': "Tensor_stream 4 (\<lambda>i. 0)
        ([ULong 2, ULong 2, ULong 1, Blob [1, 2, 3, 4, 5, 6, 7, 8]] @ [ULong 9]) = Inr (t', [ULong 9])"
      "shape_m t' = [2, 1]" "size_m t' = 2" "array_m t' = Some [1, 2, 3, 4, 5, 6, 7, 8]"
    using encode_decode_roundtrip [OF al, of "\<lambda>i. 0" "[ULong 9]"] enc by auto
  have "own_m t' = True"
    using t'(1)
    by (auto simp: Tensor_stream_def Let_def get_ulong_def resize_def Tensor_shape_def
        readBlob_def vector_max_size_def split: sum.splits if_splits prod.splits)
  then have "t' = \<lparr>array_m = Some [1, 2, 3, 4, 5, 6, 7, 8], size_m = 2, shape_m = [2, 1],
      own_m = True\<rparr>"
    using t'(2-4) by (cases t') simp
  then show ?thesis using al enc t'(1) by simp
qed

text \<open>
  The constructor from a stream refuses a number of dimensions that no vector can hold,
  before it reads a dimension.
\<close>

lemma Tensor_stream_length_error:
  "Tensor_stream sz junk (ULong 4611686018427387904 # s) = Inl LengthError"
  by (simp add: Tensor_stream_def get_ulong_def vector_max_size_def)

text \<open>
  C8.  The claim is right about what the two methods are meant to do, and
  \<open>encode_decode_roundtrip\<close> shows the code doing it for every allocated tensor, which
  every tensor the constructor from a shape returns is (\<open>Tensor_shape_allocated\<close>).  The
  constructor over existing data takes the size from \<open>flatten\<close> as well, and there the
  \<open>int\<close> accumulator breaks the round trip.  The shape \<open>[65536, 32768]\<close> has the product
  2147483648; over an array of that many elements of 8 bytes, 17179869184 bytes in all,
  the constructor returns a tensor whose \<open>size()\<close> is 18446744071562067968 (the \<open>int\<close>
  -2147483648 converted to \<open>Size\<close>), which is positive.  \<open>encode\<close> then asks \<open>writeBlob\<close>
  for 18446744056529682432 bytes of that array: it fails, unless the array were that long.
\<close>

theorem Tensor_array_encode_fails:
  "product [65536, 32768] = 2147483648 \<and>
   Tensor_array (Some a) [65536, 32768] =
     Inr \<lparr>array_m = Some a, size_m = 18446744071562067968, shape_m = [65536, 32768],
          own_m = False\<rparr> \<and>
   (0 :: Size) < 18446744071562067968 \<and>
   encode 8 \<lparr>array_m = Some a, size_m = 18446744071562067968, shape_m = [65536, 32768],
             own_m = False\<rparr> s =
     (if 18446744056529682432 \<le> length a
      then Inr (s @ [ULong 2, ULong 65536, ULong 32768, Blob (take 18446744056529682432 a)])
      else Inl OutOfBounds) \<and>
   encode 8 \<lparr>array_m = Some (replicate 17179869184 b), size_m = 18446744071562067968,
             shape_m = [65536, 32768], own_m = False\<rparr> s = Inl OutOfBounds"
proof -
  have f: "flatten [65536, 32768] = 18446744071562067968" by (simp add: flatten_def)
  have e: "encode 8 \<lparr>array_m = Some x, size_m = 18446744071562067968, shape_m = [65536, 32768],
             own_m = False\<rparr> s =
     (if 18446744056529682432 \<le> length x
      then Inr (s @ [ULong 2, ULong 65536, ULong 32768, Blob (take 18446744056529682432 x)])
      else Inl OutOfBounds)" for x
    by (simp add: encode_def put_ulong_def writeBlob_def)
  have "encode 8 \<lparr>array_m = Some (replicate 17179869184 b), size_m = 18446744071562067968,
             shape_m = [65536, 32768], own_m = False\<rparr> s = Inl OutOfBounds"
    unfolding e by (simp only: length_replicate) simp
  then show ?thesis using e [of a] by (simp add: f product_def Tensor_array_def)
qed

end
